theory Spec2Isabelle
  imports Main
begin

section \<open>The Repository service of the API server (server/repository/repository.go)\<close>

text \<open>
  The service is a thin layer over four collaborators: the credential store
  (\<open>db.ArgoDB\<close>), the access-control enforcer (\<open>rbac.Enforcer\<close>), the git package
  (\<open>git.TestRepo\<close>, \<open>git.NormalizeGitURL\<close>) and the repository service client
  (\<open>ListDir\<close>, \<open>GetFile\<close>). None of their implementations belongs to the file verified
  here, so each is a parameter of the model: a record of functions. Every theorem
  below holds for all implementations of the collaborators.

  Go returns a pair \<open>(value, error)\<close> in which either component may be \<open>nil\<close>; the
  model keeps the pair (two options) instead of a sum, and a dereference of a
  \<open>nil\<close> pointer is the outcome \<open>Panic\<close>. The store is stateful: its operations take the
  store's state and return the new one.
\<close>

subsection \<open>Errors (google.golang.org/grpc codes and status)\<close>

datatype codes =
    OK | Canceled | Unknown | InvalidArgument | DeadlineExceeded | NotFound
  | AlreadyExists | PermissionDenied | ResourceExhausted | FailedPrecondition
  | Aborted | OutOfRange | Unimplemented | Internal | Unavailable | DataLoss
  | Unauthenticated

text \<open>
  A Go \<open>error\<close> value that is not \<open>nil\<close>: either a gRPC status error with its code and
  description, or any other error, of which only the text matters here.
\<close>

datatype error = StatusError codes string | PlainError string

fun codes_String :: "codes \<Rightarrow> string" where
  "codes_String OK = ''OK''"
| "codes_String Canceled = ''Canceled''"
| "codes_String Unknown = ''Unknown''"
| "codes_String InvalidArgument = ''InvalidArgument''"
| "codes_String DeadlineExceeded = ''DeadlineExceeded''"
| "codes_String NotFound = ''NotFound''"
| "codes_String AlreadyExists = ''AlreadyExists''"
| "codes_String PermissionDenied = ''PermissionDenied''"
| "codes_String ResourceExhausted = ''ResourceExhausted''"
| "codes_String FailedPrecondition = ''FailedPrecondition''"
| "codes_String Aborted = ''Aborted''"
| "codes_String OutOfRange = ''OutOfRange''"
| "codes_String Unimplemented = ''Unimplemented''"
| "codes_String Internal = ''Internal''"
| "codes_String Unavailable = ''Unavailable''"
| "codes_String DataLoss = ''DataLoss''"
| "codes_String Unauthenticated = ''Unauthenticated''"

text \<open>\<open>err.Error()\<close>: the text of an error, which is what the verb \<open>%v\<close> prints.\<close>

fun Error :: "error \<Rightarrow> string" where
  "Error (StatusError c m) = ''rpc error: code = '' @ codes_String c @ '' desc = '' @ m"
| "Error (PlainError m) = m"

text \<open>
  \<open>status.Convert(err).Code()\<close>: \<open>OK\<close> for \<open>nil\<close>, the code of a status error, and
  \<open>Unknown\<close> for every other error.
\<close>

fun status_Convert_Code :: "error option \<Rightarrow> codes" where
  "status_Convert_Code None = OK"
| "status_Convert_Code (Some (StatusError c m)) = c"
| "status_Convert_Code (Some (PlainError m)) = Unknown"

text \<open>
  \<open>status.Errorf(c, format, args...)\<close>, applied to the formatted message: \<open>nil\<close> for the
  code \<open>OK\<close>, a status error otherwise.
\<close>

definition status_Errorf :: "codes \<Rightarrow> string \<Rightarrow> error option" where
  "status_Errorf c msg = (if c = OK then None else Some (StatusError c msg))"

text \<open>
  Modelled from the spec: \<open>grpc.ErrPermissionDenied\<close> is declared in util/grpc, which
  is not among the sources. The spec calls it the permission-denied error: a status
  error of code \<open>PermissionDenied\<close>.
\<close>

definition ErrPermissionDenied :: "error option" where
  "ErrPermissionDenied = status_Errorf PermissionDenied ''permission denied''"

subsection \<open>Data (pkg/apis/application/v1alpha1 and the service's messages)\<close>

text \<open>
  The struct declarations are outside the file verified here. The records carry the
  fields that repository.go reads or writes; \<open>ConnectionState\<close> has two more fields,
  which the composite literal in \<open>Create\<close> leaves at their zero values.
\<close>

type_synonym ConnectionStatus = string

definition ConnectionStatusSuccessful :: ConnectionStatus where
  "ConnectionStatusSuccessful = ''Successful''"

record ConnectionState =
  Status :: ConnectionStatus
  Message :: string
  ModifiedAt :: "nat option"

record Repository =
  Repo :: string
  Username :: string
  Password :: string
  SSHPrivateKey :: string
  ConnectionState :: ConnectionState

record RepositoryList =
  Items :: "Repository list"

record RepoQuery =
  RepoQuery_Repo :: string

record RepoAppsQuery =
  RepoAppsQuery_Repo :: string
  RepoAppsQuery_Revision :: string

text \<open>The \<open>Repo\<close> field of a create or update request is a pointer: \<open>None\<close> is \<open>nil\<close>.\<close>

record RepoCreateRequest =
  RepoCreateRequest_Repo :: "Repository option"
  Upsert :: bool

record RepoUpdateRequest =
  RepoUpdateRequest_Repo :: "Repository option"

datatype RepoResponse = RepoResponse

record HelmAppSpec =
  HelmAppSpec_Name :: string
  HelmAppSpec_Path :: string

text \<open>
  \<open>Environments\<close> is a Go map from environment names to environments; the code only
  takes its length, so an association list with one entry per key stands for it.
\<close>

record 'e KsonnetAppSpec =
  KsonnetAppSpec_Name :: string
  KsonnetAppSpec_Path :: string
  Environments :: "(string \<times> 'e) list"

text \<open>The two fields are slices, which may be \<open>nil\<close>: \<open>None\<close>.\<close>

record 'e RepoAppsResponse =
  KsonnetApps :: "'e KsonnetAppSpec list option"
  HelmApps :: "HelmAppSpec list option"

subsection \<open>Collaborators\<close>

text \<open>What a handler does: it panics, or it returns its pair of results.\<close>

datatype 'a outcome = Panic | Return 'a

type_synonym 'a result = "'a option \<times> error option"

text \<open>\<open>db.ArgoDB\<close>, over the store's state \<open>'d\<close>.\<close>

record 'd ArgoDB =
  ListRepositories :: "'d \<Rightarrow> RepositoryList result \<times> 'd"
  CreateRepository :: "Repository \<Rightarrow> 'd \<Rightarrow> Repository result \<times> 'd"
  GetRepository :: "string \<Rightarrow> 'd \<Rightarrow> Repository result \<times> 'd"
  UpdateRepository :: "Repository \<Rightarrow> 'd \<Rightarrow> Repository result \<times> 'd"
  DeleteRepository :: "string \<Rightarrow> 'd \<Rightarrow> error option \<times> 'd"

text \<open>
  \<open>rbac.Enforcer\<close>: \<open>EnforceClaims(claims, resource, action, object)\<close>. The claims are the
  value the context holds under the key \<open>"claims"\<close>; the context is modelled by that
  value, of type \<open>'c\<close>.
\<close>

record 'c Enforcer =
  EnforceClaims :: "'c \<Rightarrow> string \<Rightarrow> string \<Rightarrow> string \<Rightarrow> bool"

text \<open>The git package: \<open>TestRepo(url, username, password, sshPrivateKey)\<close>.\<close>

record git =
  NormalizeGitURL :: "string \<Rightarrow> string"
  TestRepo :: "string \<Rightarrow> string \<Rightarrow> string \<Rightarrow> string \<Rightarrow> error option"

text \<open>The repository service: requests, responses and the client.\<close>

record ListDirRequest =
  ListDirRequest_Repo :: "Repository option"
  ListDirRequest_Revision :: string
  ListDirRequest_Path :: string

record FileList =
  FileList_Items :: "string list"

record GetFileRequest =
  GetFileRequest_Repo :: "Repository option"
  GetFileRequest_Revision :: string
  GetFileRequest_Path :: string

record GetFileResponse =
  Data :: string

record RepositoryServiceClient =
  ListDir :: "ListDirRequest \<Rightarrow> FileList result"
  GetFile :: "GetFileRequest \<Rightarrow> GetFileResponse result"

text \<open>
  \<open>reposerver.Clientset\<close>: \<open>NewRepositoryClient()\<close> returns a connection, a client and an
  error. The connection is only closed on return, which changes no result.
\<close>

record Clientset =
  NewRepositoryClient :: "RepositoryServiceClient result"

text \<open>
  \<open>yaml.Unmarshal(data, &appSpec)\<close> writes the fields that the document gives into
  the struct it is handed and returns an error or \<open>nil\<close>: the model takes the struct
  before and returns the struct after. One instance for each target type.
\<close>

record 'e yaml =
  Unmarshal_Helm :: "string \<Rightarrow> HelmAppSpec \<Rightarrow> HelmAppSpec \<times> error option"
  Unmarshal_Ksonnet :: "string \<Rightarrow> 'e KsonnetAppSpec \<Rightarrow> 'e KsonnetAppSpec \<times> error option"

record ('d, 'c) Server =
  db :: "'d ArgoDB"
  repoClientset :: Clientset
  enf :: "'c Enforcer"

subsection \<open>The handlers\<close>

definition redact :: "Repository option \<Rightarrow> Repository option" where
  "redact repo =
     (case repo of
        None \<Rightarrow> None
      | Some r \<Rightarrow> Some (r\<lparr>Password := '''', SSHPrivateKey := ''''\<rparr>))"

text \<open>
  The loop of \<open>List\<close>: \<open>repo\<close> is a copy of the item, \<open>redact(&repo)\<close> blanks the copy and
  the copy is appended.
\<close>

fun List_loop ::
  "'c Enforcer \<Rightarrow> 'c \<Rightarrow> Repository list \<Rightarrow> Repository list \<Rightarrow> Repository list outcome" where
  "List_loop e ctx [] newItems = Return newItems"
| "List_loop e ctx (repo # rest) newItems =
     (if EnforceClaims e ctx ''repositories'' ''get'' (Repo repo)
      then (case redact (Some repo) of
              None \<Rightarrow> Panic
            | Some repo' \<Rightarrow> List_loop e ctx rest (newItems @ [repo']))
      else List_loop e ctx rest newItems)"

definition List ::
  "('d, 'c) Server \<Rightarrow> 'c \<Rightarrow> RepoQuery \<Rightarrow> 'd \<Rightarrow> RepositoryList result outcome \<times> 'd" where
  "List s ctx q d =
     (case ListRepositories (db s) d of
        ((None, err), d') \<Rightarrow> (Return (None, err), d')
      | ((Some repoList, err), d') \<Rightarrow>
          (case List_loop (enf s) ctx (Items repoList) [] of
             Panic \<Rightarrow> (Panic, d')
           | Return newItems \<Rightarrow> (Return (Some (repoList\<lparr>Items := newItems\<rparr>), err), d')))"

text \<open>The loop of \<open>listHelmApps\<close>, with the revision and the repository of the request.\<close>

fun listHelmApps_loop ::
  "'e yaml \<Rightarrow> RepositoryServiceClient \<Rightarrow> Repository option \<Rightarrow> string \<Rightarrow> string list \<Rightarrow>
   HelmAppSpec list \<Rightarrow> HelmAppSpec list result outcome" where
  "listHelmApps_loop y repoClient repo revision [] helmApps = Return (Some helmApps, None)"
| "listHelmApps_loop y repoClient repo revision (path # rest) helmApps =
     (case GetFile repoClient
             \<lparr>GetFileRequest_Repo = repo, GetFileRequest_Revision = revision,
              GetFileRequest_Path = path\<rparr> of
        (getFileRes, Some err) \<Rightarrow> Return (None, Some err)
      | (None, None) \<Rightarrow> Panic
      | (Some getFileRes, None) \<Rightarrow>
          (case Unmarshal_Helm y (Data getFileRes)
                  \<lparr>HelmAppSpec_Name = '''', HelmAppSpec_Path = path\<rparr> of
             (appSpec, err) \<Rightarrow>
               if err = None \<and> HelmAppSpec_Name appSpec \<noteq> ''''
               then listHelmApps_loop y repoClient repo revision rest (helmApps @ [appSpec])
               else listHelmApps_loop y repoClient repo revision rest helmApps))"

definition listHelmApps ::
  "'e yaml \<Rightarrow> Repository option \<Rightarrow> string \<Rightarrow> RepositoryServiceClient \<Rightarrow>
   HelmAppSpec list result outcome" where
  "listHelmApps y repo revision repoClient =
     (case ListDir repoClient
             \<lparr>ListDirRequest_Repo = repo, ListDirRequest_Revision = revision,
              ListDirRequest_Path = ''*Chart.yaml''\<rparr> of
        (getRes, Some err) \<Rightarrow> Return (None, Some err)
      | (None, None) \<Rightarrow> Panic
      | (Some getRes, None) \<Rightarrow>
          listHelmApps_loop y repoClient repo revision (FileList_Items getRes) [])"

fun listKsonnetApps_loop ::
  "'e yaml \<Rightarrow> RepositoryServiceClient \<Rightarrow> Repository option \<Rightarrow> string \<Rightarrow> string list \<Rightarrow>
   'e KsonnetAppSpec list \<Rightarrow> 'e KsonnetAppSpec list result outcome" where
  "listKsonnetApps_loop y repoClient repo revision [] ksonnetApps =
     Return (Some ksonnetApps, None)"
| "listKsonnetApps_loop y repoClient repo revision (path # rest) ksonnetApps =
     (case GetFile repoClient
             \<lparr>GetFileRequest_Repo = repo, GetFileRequest_Revision = revision,
              GetFileRequest_Path = path\<rparr> of
        (getFileRes, Some err) \<Rightarrow> Return (None, Some err)
      | (None, None) \<Rightarrow> Panic
      | (Some getFileRes, None) \<Rightarrow>
          (case Unmarshal_Ksonnet y (Data getFileRes)
                  \<lparr>KsonnetAppSpec_Name = '''', KsonnetAppSpec_Path = path,
                   Environments = []\<rparr> of
             (appSpec, err) \<Rightarrow>
               if err = None \<and> KsonnetAppSpec_Name appSpec \<noteq> ''''
                  \<and> length (Environments appSpec) > 0
               then listKsonnetApps_loop y repoClient repo revision rest
                      (ksonnetApps @ [appSpec])
               else listKsonnetApps_loop y repoClient repo revision rest ksonnetApps))"

definition listKsonnetApps ::
  "'e yaml \<Rightarrow> Repository option \<Rightarrow> string \<Rightarrow> RepositoryServiceClient \<Rightarrow>
   'e KsonnetAppSpec list result outcome" where
  "listKsonnetApps y repo revision repoClient =
     (case ListDir repoClient
             \<lparr>ListDirRequest_Repo = repo, ListDirRequest_Revision = revision,
              ListDirRequest_Path = ''*app.yaml''\<rparr> of
        (getRes, Some err) \<Rightarrow> Return (None, Some err)
      | (None, None) \<Rightarrow> Panic
      | (Some getRes, None) \<Rightarrow>
          listKsonnetApps_loop y repoClient repo revision (FileList_Items getRes) [])"

definition ListApps ::
  "'e yaml \<Rightarrow> ('d, 'c) Server \<Rightarrow> 'c \<Rightarrow> RepoAppsQuery \<Rightarrow> 'd \<Rightarrow>
   'e RepoAppsResponse result outcome \<times> 'd" where
  "ListApps y s ctx q d =
     (if \<not> EnforceClaims (enf s) ctx ''repositories/apps'' ''get'' (RepoAppsQuery_Repo q)
      then (Return (None, ErrPermissionDenied), d)
      else
        (case GetRepository (db s) (RepoAppsQuery_Repo q) d of
           ((repo, Some err), d') \<Rightarrow> (Return (None, Some err), d')
         | ((repo, None), d') \<Rightarrow>
             (case NewRepositoryClient (repoClientset s) of
                (repoClient, Some err) \<Rightarrow> (Return (None, Some err), d')
              | (None, None) \<Rightarrow> (Panic, d')
              | (Some repoClient, None) \<Rightarrow>
                  (let revision = (if RepoAppsQuery_Revision q = '''' then ''HEAD''
                                   else RepoAppsQuery_Revision q)
                   in case listKsonnetApps y repo revision repoClient of
                        Panic \<Rightarrow> (Panic, d')
                      | Return (ksonnetApps, Some err) \<Rightarrow> (Return (None, Some err), d')
                      | Return (ksonnetApps, None) \<Rightarrow>
                          (case listHelmApps y repo revision repoClient of
                             Panic \<Rightarrow> (Panic, d')
                           | Return (helmApps, Some err) \<Rightarrow> (Return (None, Some err), d')
                           | Return (helmApps, None) \<Rightarrow>
                               (Return (Some \<lparr>KsonnetApps = ksonnetApps,
                                              HelmApps = helmApps\<rparr>, None), d'))))))"

definition Update ::
  "('d, 'c) Server \<Rightarrow> 'c \<Rightarrow> RepoUpdateRequest \<Rightarrow> 'd \<Rightarrow> Repository result outcome \<times> 'd" where
  "Update s ctx q d =
     (case RepoUpdateRequest_Repo q of
        None \<Rightarrow> (Panic, d)
      | Some r \<Rightarrow>
          if \<not> EnforceClaims (enf s) ctx ''repositories'' ''update'' (Repo r)
          then (Return (None, ErrPermissionDenied), d)
          else (case UpdateRepository (db s) r d of
                  ((repo, err), d') \<Rightarrow> (Return (redact repo, err), d')))"

text \<open>
  In \<open>Create\<close>, \<open>r\<close> is the request's own repository (the pointer \<open>q.Repo\<close>), with its
  connection state overwritten before it reaches the store. \<open>reflect.DeepEqual\<close> on the
  two pointers compares the structs field by field: equality of records.
\<close>

definition Create ::
  "git \<Rightarrow> ('d, 'c) Server \<Rightarrow> 'c \<Rightarrow> RepoCreateRequest \<Rightarrow> 'd \<Rightarrow>
   Repository result outcome \<times> 'd" where
  "Create g s ctx q d =
     (case RepoCreateRequest_Repo q of
        None \<Rightarrow> (Panic, d)
      | Some r0 \<Rightarrow>
          if \<not> EnforceClaims (enf s) ctx ''repositories'' ''create'' (Repo r0)
          then (Return (None, ErrPermissionDenied), d)
          else
            (case TestRepo g (NormalizeGitURL g (Repo r0)) (Username r0) (Password r0)
                    (SSHPrivateKey r0) of
               Some err \<Rightarrow> (Return (None, Some err), d)
             | None \<Rightarrow>
                 (let r = r0\<lparr>ConnectionState :=
                              \<lparr>Status = ConnectionStatusSuccessful, Message = '''',
                               ModifiedAt = None\<rparr>\<rparr>
                  in case CreateRepository (db s) r d of
                       ((repo, err), d1) \<Rightarrow>
                         if status_Convert_Code err = AlreadyExists
                         then
                           (case GetRepository (db s) (Repo r) d1 of
                              ((existing, Some getErr), d2) \<Rightarrow>
                                (Return (None,
                                   status_Errorf Internal
                                     (''unable to check existing repository details: ''
                                      @ Error getErr)), d2)
                            | ((None, None), d2) \<Rightarrow> (Panic, d2)
                            | ((Some existing, None), d2) \<Rightarrow>
                                (let existing' =
                                       existing\<lparr>ConnectionState := ConnectionState r\<rparr>
                                 in if existing' = r
                                    then (Return (redact (Some existing'), None), d2)
                                    else if Upsert q
                                    then Update s ctx \<lparr>RepoUpdateRequest_Repo = Some r\<rparr> d2
                                    else (Return (None,
                                            status_Errorf InvalidArgument
                                              ''existing repository spec is different; use upsert flag to force update''),
                                          d2)))
                         else (Return (redact repo, err), d1))))"

definition Get ::
  "('d, 'c) Server \<Rightarrow> 'c \<Rightarrow> RepoQuery \<Rightarrow> 'd \<Rightarrow> Repository result outcome \<times> 'd" where
  "Get s ctx q d =
     (if \<not> EnforceClaims (enf s) ctx ''repositories'' ''get'' (RepoQuery_Repo q)
      then (Return (None, ErrPermissionDenied), d)
      else (case GetRepository (db s) (RepoQuery_Repo q) d of
              ((repo, err), d') \<Rightarrow> (Return (redact repo, err), d')))"

definition Delete ::
  "('d, 'c) Server \<Rightarrow> 'c \<Rightarrow> RepoQuery \<Rightarrow> 'd \<Rightarrow> RepoResponse result outcome \<times> 'd" where
  "Delete s ctx q d =
     (if \<not> EnforceClaims (enf s) ctx ''repositories'' ''delete'' (RepoQuery_Repo q)
      then (Return (None, ErrPermissionDenied), d)
      else (case DeleteRepository (db s) (RepoQuery_Repo q) d of
              (err, d') \<Rightarrow> (Return (Some RepoResponse, err), d')))"

subsection \<open>The inclusion filter of the app listings\<close>

text \<open>
  Names for what one iteration of the listing loops computes, used to state the
  properties: the struct after unmarshalling the document found at \<open>path\<close> into a
  fresh struct that carries the path, and the test that decides whether it is appended.
\<close>

definition helm_parse :: "'e yaml \<Rightarrow> string \<Rightarrow> string \<Rightarrow> HelmAppSpec \<times> error option" where
  "helm_parse y path data =
     Unmarshal_Helm y data \<lparr>HelmAppSpec_Name = '''', HelmAppSpec_Path = path\<rparr>"

definition helm_included :: "'e yaml \<Rightarrow> string \<Rightarrow> string \<Rightarrow> bool" where
  "helm_included y path data =
     (snd (helm_parse y path data) = None
      \<and> HelmAppSpec_Name (fst (helm_parse y path data)) \<noteq> '''')"

definition ksonnet_parse ::
  "'e yaml \<Rightarrow> string \<Rightarrow> string \<Rightarrow> 'e KsonnetAppSpec \<times> error option" where
  "ksonnet_parse y path data =
     Unmarshal_Ksonnet y data
       \<lparr>KsonnetAppSpec_Name = '''', KsonnetAppSpec_Path = path, Environments = []\<rparr>"

definition ksonnet_included :: "'e yaml \<Rightarrow> string \<Rightarrow> string \<Rightarrow> bool" where
  "ksonnet_included y path data =
     (snd (ksonnet_parse y path data) = None
      \<and> KsonnetAppSpec_Name (fst (ksonnet_parse y path data)) \<noteq> ''''
      \<and> Environments (fst (ksonnet_parse y path data)) \<noteq> [])"

subsection \<open>A store that keeps a journal\<close>

text \<open>
  To say which calls a handler makes on the store, any store is wrapped into one that
  behaves the same and appends each call it receives to a journal.
\<close>

datatype db_call =
    Call_ListRepositories
  | Call_CreateRepository Repository
  | Call_GetRepository string
  | Call_UpdateRepository Repository
  | Call_DeleteRepository string

fun is_write :: "db_call \<Rightarrow> bool" where
  "is_write Call_ListRepositories = False"
| "is_write (Call_CreateRepository r) = True"
| "is_write (Call_GetRepository url) = False"
| "is_write (Call_UpdateRepository r) = True"
| "is_write (Call_DeleteRepository url) = True"

definition journal :: "db_call \<Rightarrow> 'a \<times> 'd \<Rightarrow> db_call list \<Rightarrow> 'a \<times> 'd \<times> db_call list" where
  "journal c res log = (fst res, snd res, log @ [c])"

definition recording :: "'d ArgoDB \<Rightarrow> ('d \<times> db_call list) ArgoDB" where
  "recording b =
     \<lparr>ListRepositories = (\<lambda>(d, log). journal Call_ListRepositories (ListRepositories b d) log),
      CreateRepository =
        (\<lambda>r (d, log). journal (Call_CreateRepository r) (CreateRepository b r d) log),
      GetRepository =
        (\<lambda>url (d, log). journal (Call_GetRepository url) (GetRepository b url d) log),
      UpdateRepository =
        (\<lambda>r (d, log). journal (Call_UpdateRepository r) (UpdateRepository b r d) log),
      DeleteRepository =
        (\<lambda>url (d, log). journal (Call_DeleteRepository url) (DeleteRepository b url d) log)\<rparr>"

definition recordingServer :: "('d, 'c) Server \<Rightarrow> ('d \<times> db_call list, 'c) Server" where
  "recordingServer s =
     \<lparr>db = recording (db s), repoClientset = repoClientset s, enf = enf s\<rparr>"

subsection \<open>Test doubles for the closed instances\<close>

text \<open>
  Concrete collaborators on which the properties are instantiated: a store held in a
  list of repositories that answers a second creation of a URL with \<open>AlreadyExists\<close>, a
  variant whose reads fail, three enforcers and two git packages.
\<close>

definition memDB :: "Repository list ArgoDB" where
  "memDB =
     \<lparr>ListRepositories = (\<lambda>d. ((Some \<lparr>Items = d\<rparr>, None), d)),
      CreateRepository = (\<lambda>r d.
         if Repo r \<in> set (map Repo d)
         then ((None, Some (StatusError AlreadyExists ''repository already exists'')), d)
         else ((Some r, None), d @ [r])),
      GetRepository = (\<lambda>url d.
         case find (\<lambda>x. Repo x = url) d of
           None \<Rightarrow> ((None, Some (StatusError NotFound ''repository not found'')), d)
         | Some x \<Rightarrow> ((Some x, None), d)),
      UpdateRepository = (\<lambda>r d.
         if Repo r \<in> set (map Repo d)
         then ((Some r, None), map (\<lambda>x. if Repo x = Repo r then r else x) d)
         else ((None, Some (StatusError NotFound ''repository not found'')), d)),
      DeleteRepository = (\<lambda>url d.
         if url \<in> set (map Repo d)
         then (None, filter (\<lambda>x. Repo x \<noteq> url) d)
         else (Some (StatusError NotFound ''repository not found''), d))\<rparr>"

definition unreadableDB :: "Repository list ArgoDB" where
  "unreadableDB =
     \<lparr>ListRepositories = ListRepositories memDB,
      CreateRepository = CreateRepository memDB,
      GetRepository = (\<lambda>url d. ((None, Some (PlainError ''connection refused'')), d)),
      UpdateRepository = UpdateRepository memDB,
      DeleteRepository = DeleteRepository memDB\<rparr>"

definition repoA :: Repository where
  "repoA =
     \<lparr>Repo = ''https://example.com/a.git'', Username = ''alice'', Password = ''secret'',
      SSHPrivateKey = ''key'',
      ConnectionState = \<lparr>Status = ''Failed'', Message = ''timeout'', ModifiedAt = Some 7\<rparr>\<rparr>"

definition repoB :: Repository where
  "repoB =
     \<lparr>Repo = ''https://example.com/b.git'', Username = ''bob'', Password = ''hunter2'',
      SSHPrivateKey = '''',
      ConnectionState = \<lparr>Status = ''Successful'', Message = '''', ModifiedAt = None\<rparr>\<rparr>"

definition denyAll :: "string Enforcer" where
  "denyAll = \<lparr>EnforceClaims = (\<lambda>c res act obj. False)\<rparr>"

definition allowAll :: "string Enforcer" where
  "allowAll = \<lparr>EnforceClaims = (\<lambda>c res act obj. True)\<rparr>"

definition denyA :: "string Enforcer" where
  "denyA = \<lparr>EnforceClaims = (\<lambda>c res act obj. obj \<noteq> ''https://example.com/a.git'')\<rparr>"

definition gitReachable :: git where
  "gitReachable = \<lparr>NormalizeGitURL = (\<lambda>u. u), TestRepo = (\<lambda>u n p k. None)\<rparr>"

definition gitUnreachable :: git where
  "gitUnreachable =
     \<lparr>NormalizeGitURL = (\<lambda>u. u),
      TestRepo = (\<lambda>u n p k. Some (PlainError ''repository not found''))\<rparr>"

text \<open>
  A repository server with three charts and three ksonnet apps at \<open>HEAD\<close> and nothing
  at any other revision.
\<close>

definition demoFiles :: "(string \<times> string) list" where
  "demoFiles =
     [(''a/Chart.yaml'', ''alpha''), (''b/Chart.yaml'', ''{''), (''c/Chart.yaml'', ''gamma''),
      (''x/app.yaml'', ''xi|default''), (''y/app.yaml'', ''upsilon''),
      (''z/app.yaml'', ''zeta|prod'')]"

definition demoClient :: RepositoryServiceClient where
  "demoClient =
     \<lparr>ListDir = (\<lambda>req.
        if ListDirRequest_Revision req \<noteq> ''HEAD''
        then (None, Some (PlainError ''unknown revision''))
        else if ListDirRequest_Path req = ''*Chart.yaml''
        then (Some \<lparr>FileList_Items = [''a/Chart.yaml'', ''b/Chart.yaml'', ''c/Chart.yaml'']\<rparr>,
              None)
        else (Some \<lparr>FileList_Items = [''x/app.yaml'', ''y/app.yaml'', ''z/app.yaml'']\<rparr>,
              None)),
      GetFile = (\<lambda>req.
        if GetFileRequest_Revision req \<noteq> ''HEAD''
        then (None, Some (PlainError ''unknown revision''))
        else (case map_of demoFiles (GetFileRequest_Path req) of
                None \<Rightarrow> (None, Some (PlainError ''file not found''))
              | Some text \<Rightarrow> (Some \<lparr>Data = text\<rparr>, None)))\<rparr>"

definition demoClientset :: Clientset where
  "demoClientset = \<lparr>NewRepositoryClient = (Some demoClient, None)\<rparr>"

definition demoData :: "string \<Rightarrow> string" where
  "demoData p = (case map_of demoFiles p of None \<Rightarrow> '''' | Some text \<Rightarrow> text)"

text \<open>
  A toy document format in place of yaml: the text \<open>{\<close> does not parse; any other
  text is \<open>name\<close> or \<open>name|environment\<close>.
\<close>

definition toyYaml :: "unit yaml" where
  "toyYaml =
     \<lparr>Unmarshal_Helm = (\<lambda>text a.
        if text = ''{'' then (a, Some (PlainError ''yaml: did not find expected node content''))
        else (a\<lparr>HelmAppSpec_Name := takeWhile (\<lambda>c. c \<noteq> CHR ''|'') text\<rparr>, None)),
      Unmarshal_Ksonnet = (\<lambda>text a.
        if text = ''{'' then (a, Some (PlainError ''yaml: did not find expected node content''))
        else (a\<lparr>KsonnetAppSpec_Name := takeWhile (\<lambda>c. c \<noteq> CHR ''|'') text,
                Environments :=
                  (case dropWhile (\<lambda>c. c \<noteq> CHR ''|'') text of
                     [] \<Rightarrow> []
                   | c # env \<Rightarrow> [(env, ())])\<rparr>, None))\<rparr>"

definition srv :: "string Enforcer \<Rightarrow> (Repository list, string) Server" where
  "srv e = \<lparr>db = memDB, repoClientset = demoClientset, enf = e\<rparr>"

definition srvUnreadable :: "(Repository list, string) Server" where
  "srvUnreadable = \<lparr>db = unreadableDB, repoClientset = demoClientset, enf = allowAll\<rparr>"

lemmas demo_defs =
  srv_def srvUnreadable_def memDB_def unreadableDB_def repoA_def repoB_def denyAll_def
  allowAll_def denyA_def gitReachable_def gitUnreachable_def demoClientset_def
  demoClient_def demoFiles_def demoData_def toyYaml_def

section \<open>Properties\<close>

subsection \<open>The loops as list functions\<close>

lemma List_loop_eq:
  "List_loop e ctx xs acc =
     Return (acc @ map (\<lambda>r. r\<lparr>Password := '''', SSHPrivateKey := ''''\<rparr>)
                     (filter (\<lambda>r. EnforceClaims e ctx ''repositories'' ''get'' (Repo r)) xs))"
  by (induction xs arbitrary: acc) (simp_all add: redact_def)

lemma redact_Some: "redact repo = Some r \<Longrightarrow> Password r = '''' \<and> SSHPrivateKey r = ''''"
  by (auto simp: redact_def split: option.splits)

lemma listHelmApps_loop_eq:
  assumes "\<forall>p\<in>set paths.
             GetFile c \<lparr>GetFileRequest_Repo = repo, GetFileRequest_Revision = revision,
                        GetFileRequest_Path = p\<rparr> = (Some \<lparr>Data = data p\<rparr>, None)"
  shows "listHelmApps_loop y c repo revision paths acc =
           Return (Some (acc @ map (\<lambda>p. fst (helm_parse y p (data p)))
                                 (filter (\<lambda>p. helm_included y p (data p)) paths)), None)"
  using assms
proof (induction paths arbitrary: acc)
  case Nil
  show ?case by simp
next
  case (Cons p ps)
  have fetch: "GetFile c \<lparr>GetFileRequest_Repo = repo, GetFileRequest_Revision = revision,
                          GetFileRequest_Path = p\<rparr> = (Some \<lparr>Data = data p\<rparr>, None)"
    using Cons.prems by simp
  have rest: "\<And>acc'. listHelmApps_loop y c repo revision ps acc' =
           Return (Some (acc' @ map (\<lambda>p. fst (helm_parse y p (data p)))
                                 (filter (\<lambda>p. helm_included y p (data p)) ps)), None)"
    using Cons.IH Cons.prems by simp
  show ?case
    by (simp add: fetch rest helm_included_def helm_parse_def split: prod.splits)
qed

lemma listKsonnetApps_loop_eq:
  assumes "\<forall>p\<in>set paths.
             GetFile c \<lparr>GetFileRequest_Repo = repo, GetFileRequest_Revision = revision,
                        GetFileRequest_Path = p\<rparr> = (Some \<lparr>Data = data p\<rparr>, None)"
  shows "listKsonnetApps_loop y c repo revision paths acc =
           Return (Some (acc @ map (\<lambda>p. fst (ksonnet_parse y p (data p)))
                                 (filter (\<lambda>p. ksonnet_included y p (data p)) paths)), None)"
  using assms
proof (induction paths arbitrary: acc)
  case Nil
  show ?case by simp
next
  case (Cons p ps)
  have fetch: "GetFile c \<lparr>GetFileRequest_Repo = repo, GetFileRequest_Revision = revision,
                          GetFileRequest_Path = p\<rparr> = (Some \<lparr>Data = data p\<rparr>, None)"
    using Cons.prems by simp
  have rest: "\<And>acc'. listKsonnetApps_loop y c repo revision ps acc' =
           Return (Some (acc' @ map (\<lambda>p. fst (ksonnet_parse y p (data p)))
                                 (filter (\<lambda>p. ksonnet_included y p (data p)) ps)), None)"
    using Cons.IH Cons.prems by simp
  show ?case
    by (simp add: fetch rest ksonnet_included_def ksonnet_parse_def split: prod.splits)
qed

subsection \<open>The claims\<close>

text \<open>
  Claim C1. When the enforcer denies the capability that guards an operation, the
  operation returns the permission-denied error and the store is in the state it had
  before the call. The guards are: \<open>Create\<close> (repositories, create, the URL of the
  request's repository), \<open>Update\<close> (repositories, update), \<open>Delete\<close> (repositories,
  delete), \<open>Get\<close> (repositories, get) and \<open>ListApps\<close> (repositories/apps, get). The
  statement holds for every store, git package and repository client, so none of them
  is called; the handler returns once and has nothing that queues or repeats a request.
\<close>

theorem denied_is_permission_denied:
  "status_Convert_Code ErrPermissionDenied = PermissionDenied
   \<and> (RepoCreateRequest_Repo cq = Some r
        \<and> \<not> EnforceClaims (enf s) ctx ''repositories'' ''create'' (Repo r)
      \<longrightarrow> Create g s ctx cq d = (Return (None, ErrPermissionDenied), d))
   \<and> (RepoUpdateRequest_Repo uq = Some r'
        \<and> \<not> EnforceClaims (enf s) ctx ''repositories'' ''update'' (Repo r')
      \<longrightarrow> Update s ctx uq d = (Return (None, ErrPermissionDenied), d))
   \<and> (\<not> EnforceClaims (enf s) ctx ''repositories'' ''delete'' (RepoQuery_Repo dq)
      \<longrightarrow> Delete s ctx dq d = (Return (None, ErrPermissionDenied), d))
   \<and> (\<not> EnforceClaims (enf s) ctx ''repositories'' ''get'' (RepoQuery_Repo gq)
      \<longrightarrow> Get s ctx gq d = (Return (None, ErrPermissionDenied), d))
   \<and> (\<not> EnforceClaims (enf s) ctx ''repositories/apps'' ''get'' (RepoAppsQuery_Repo aq)
      \<longrightarrow> ListApps y s ctx aq d = (Return (None, ErrPermissionDenied), d))"
  by (simp add: Create_def Update_def Delete_def Get_def ListApps_def
        ErrPermissionDenied_def status_Errorf_def)

text \<open>An enforcer that denies everything, on a store that holds one repository.\<close>

theorem denied_is_permission_denied_witness:
  "\<not> EnforceClaims (enf (srv denyAll)) ''alice'' ''repositories'' ''create'' (Repo repoA)
   \<and> Create gitReachable (srv denyAll) ''alice''
        \<lparr>RepoCreateRequest_Repo = Some repoA, Upsert = True\<rparr> [repoB]
       = (Return (None, ErrPermissionDenied), [repoB])
   \<and> Update (srv denyAll) ''alice'' \<lparr>RepoUpdateRequest_Repo = Some repoA\<rparr> [repoB]
       = (Return (None, ErrPermissionDenied), [repoB])
   \<and> Delete (srv denyAll) ''alice'' \<lparr>RepoQuery_Repo = Repo repoB\<rparr> [repoB]
       = (Return (None, ErrPermissionDenied), [repoB])
   \<and> Get (srv denyAll) ''alice'' \<lparr>RepoQuery_Repo = Repo repoB\<rparr> [repoB]
       = (Return (None, ErrPermissionDenied), [repoB])
   \<and> ListApps toyYaml (srv denyAll) ''alice''
        \<lparr>RepoAppsQuery_Repo = Repo repoB, RepoAppsQuery_Revision = ''''\<rparr> [repoB]
       = (Return (None, ErrPermissionDenied), [repoB])"
proof -
  have deny: "\<not> EnforceClaims (enf (srv denyAll)) ''alice'' res act obj" for res act obj
    by (simp add: srv_def denyAll_def)
  show ?thesis
    using deny
      denied_is_permission_denied
        [where cq = "\<lparr>RepoCreateRequest_Repo = Some repoA, Upsert = True\<rparr>" and r = repoA
           and uq = "\<lparr>RepoUpdateRequest_Repo = Some repoA\<rparr>" and r' = repoA
           and dq = "\<lparr>RepoQuery_Repo = Repo repoB\<rparr>"
           and gq = "\<lparr>RepoQuery_Repo = Repo repoB\<rparr>"
           and aq = "\<lparr>RepoAppsQuery_Repo = Repo repoB, RepoAppsQuery_Revision = ''''\<rparr>"
           and s = "srv denyAll" and ctx = "''alice''" and g = gitReachable
           and d = "[repoB]" and y = toyYaml]
    by simp
qed

text \<open>
  Claim C2. \<open>redact\<close> of \<open>nil\<close> is \<open>nil\<close>, and every repository that \<open>List\<close>, \<open>Get\<close>,
  \<open>Create\<close> or \<open>Update\<close> returns (each item of the list, for \<open>List\<close>) has an empty
  \<open>Password\<close> and an empty \<open>SSHPrivateKey\<close>, whatever the store returns and whether or
  not an error comes with it.
\<close>

theorem returned_repositories_are_redacted:
  "redact None = None
   \<and> (\<forall>l e d'. List s ctx lq d = (Return (Some l, e), d')
        \<longrightarrow> (\<forall>x\<in>set (Items l). Password x = '''' \<and> SSHPrivateKey x = ''''))
   \<and> (\<forall>x e d'. Get s ctx gq d = (Return (Some x, e), d')
        \<longrightarrow> Password x = '''' \<and> SSHPrivateKey x = '''')
   \<and> (\<forall>x e d'. Create g s ctx cq d = (Return (Some x, e), d')
        \<longrightarrow> Password x = '''' \<and> SSHPrivateKey x = '''')
   \<and> (\<forall>x e d'. Update s ctx uq d = (Return (Some x, e), d')
        \<longrightarrow> Password x = '''' \<and> SSHPrivateKey x = '''')"
proof -
  have upd: "Password x = '''' \<and> SSHPrivateKey x = ''''"
    if "Update s ctx q0 d0 = (Return (Some x, e), d')" for x e d' q0 d0
    using that unfolding Update_def
    by (auto split: option.splits if_splits prod.splits dest: redact_Some)
  have get: "Password x = '''' \<and> SSHPrivateKey x = ''''"
    if "Get s ctx gq d = (Return (Some x, e), d')" for x e d'
    using that unfolding Get_def
    by (auto split: option.splits if_splits prod.splits dest: redact_Some)
  have cre: "Password x = '''' \<and> SSHPrivateKey x = ''''"
    if "Create g s ctx cq d = (Return (Some x, e), d')" for x e d'
    using that unfolding Create_def Let_def
    by (auto split: option.splits if_splits prod.splits dest: redact_Some upd)
  have lst: "\<forall>x\<in>set (Items l). Password x = '''' \<and> SSHPrivateKey x = ''''"
    if "List s ctx lq d = (Return (Some l, e), d')" for l e d'
    using that unfolding List_def List_loop_eq
    by (auto split: option.splits prod.splits)
  show ?thesis
    using upd get cre lst by (simp add: redact_def)
qed

text \<open>
  The four handlers on a store whose repositories carry credentials: each returns
  them blanked.
\<close>

theorem returned_repositories_are_redacted_witness:
  "List (srv allowAll) ''alice'' \<lparr>RepoQuery_Repo = ''''\<rparr> [repoA, repoB]
     = (Return (Some \<lparr>Items = [repoA\<lparr>Password := '''', SSHPrivateKey := ''''\<rparr>,
                               repoB\<lparr>Password := '''', SSHPrivateKey := ''''\<rparr>]\<rparr>, None),
        [repoA, repoB])
   \<and> Get (srv allowAll) ''alice'' \<lparr>RepoQuery_Repo = Repo repoA\<rparr> [repoA, repoB]
     = (Return (Some (repoA\<lparr>Password := '''', SSHPrivateKey := ''''\<rparr>), None),
        [repoA, repoB])
   \<and> Create gitReachable (srv allowAll) ''alice''
        \<lparr>RepoCreateRequest_Repo = Some repoB, Upsert = False\<rparr> [repoA]
     = (Return (Some (repoB\<lparr>Password := '''', SSHPrivateKey := ''''\<rparr>), None),
        [repoA, repoB])
   \<and> Update (srv allowAll) ''alice''
        \<lparr>RepoUpdateRequest_Repo = Some (repoA\<lparr>Password := ''changed''\<rparr>)\<rparr> [repoA]
     = (Return (Some (repoA\<lparr>Password := '''', SSHPrivateKey := ''''\<rparr>), None),
        [repoA\<lparr>Password := ''changed''\<rparr>])
   \<and> Password repoA = ''secret'' \<and> SSHPrivateKey repoA = ''key''
   \<and> Password repoB = ''hunter2''
   \<and> Password (repoA\<lparr>Password := '''', SSHPrivateKey := ''''\<rparr>) = ''''
   \<and> SSHPrivateKey (repoA\<lparr>Password := '''', SSHPrivateKey := ''''\<rparr>) = ''''
   \<and> Password (repoB\<lparr>Password := '''', SSHPrivateKey := ''''\<rparr>) = ''''
   \<and> SSHPrivateKey (repoB\<lparr>Password := '''', SSHPrivateKey := ''''\<rparr>) = ''''"
proof -
  let ?A = "repoA\<lparr>Password := '''', SSHPrivateKey := ''''\<rparr>"
  let ?B = "repoB\<lparr>Password := '''', SSHPrivateKey := ''''\<rparr>"
  let ?lq = "\<lparr>RepoQuery_Repo = ''''\<rparr>"
  let ?gq = "\<lparr>RepoQuery_Repo = Repo repoA\<rparr>"
  let ?cq = "\<lparr>RepoCreateRequest_Repo = Some repoB, Upsert = False\<rparr>"
  let ?uq = "\<lparr>RepoUpdateRequest_Repo = Some (repoA\<lparr>Password := ''changed''\<rparr>)\<rparr>"
  have l: "List (srv allowAll) ''alice'' ?lq [repoA, repoB]
             = (Return (Some \<lparr>Items = [?A, ?B]\<rparr>, None), [repoA, repoB])"
    by (simp add: List_def redact_def demo_defs)
  have g: "Get (srv allowAll) ''alice'' ?gq [repoA, repoB]
             = (Return (Some ?A, None), [repoA, repoB])"
    by (simp add: Get_def redact_def demo_defs)
  have c: "Create gitReachable (srv allowAll) ''alice'' ?cq [repoA]
             = (Return (Some ?B, None), [repoA, repoB])"
    by (simp add: Create_def redact_def ConnectionStatusSuccessful_def demo_defs)
  have u: "Update (srv allowAll) ''alice'' ?uq [repoA]
             = (Return (Some ?A, None), [repoA\<lparr>Password := ''changed''\<rparr>])"
    by (simp add: Update_def redact_def demo_defs)
  note T = returned_repositories_are_redacted
  have "\<forall>x\<in>set (Items \<lparr>Items = [?A, ?B]\<rparr>). Password x = '''' \<and> SSHPrivateKey x = ''''"
    using T[where s = "srv allowAll" and ctx = "''alice''" and lq = ?lq
              and d = "[repoA, repoB]"] l
    by blast
  moreover have "Password ?A = '''' \<and> SSHPrivateKey ?A = ''''"
    using T[where s = "srv allowAll" and ctx = "''alice''" and gq = ?gq
              and d = "[repoA, repoB]"] g
    by blast
  moreover have "Password ?B = '''' \<and> SSHPrivateKey ?B = ''''"
    using T[where s = "srv allowAll" and ctx = "''alice''" and cq = ?cq and g = gitReachable
              and d = "[repoA]"] c
    by blast
  moreover have "Password ?A = '''' \<and> SSHPrivateKey ?A = ''''"
    using T[where s = "srv allowAll" and ctx = "''alice''" and uq = ?uq and d = "[repoA]"] u
    by blast
  moreover have "Password repoA = ''secret'' \<and> SSHPrivateKey repoA = ''key''
                 \<and> Password repoB = ''hunter2''"
    by (simp add: repoA_def repoB_def)
  ultimately show ?thesis
    using l g c u by simp
qed

text \<open>
  Claim C3 says that \<open>List\<close> yields a permission-denied error when the caller lacks
  the get capability on a stored repository. It does not: with an enforcer that denies
  the first of two stored repositories, \<open>List\<close> returns the second one and no error.
\<close>

theorem List_denied_counterexample:
  "\<not> EnforceClaims (enf (srv denyA)) ''alice'' ''repositories'' ''get'' (Repo repoA)
   \<and> List (srv denyA) ''alice'' \<lparr>RepoQuery_Repo = ''''\<rparr> [repoA, repoB]
       = (Return (Some \<lparr>Items = [repoB\<lparr>Password := '''', SSHPrivateKey := ''''\<rparr>]\<rparr>, None),
          [repoA, repoB])
   \<and> fst (List (srv denyA) ''alice'' \<lparr>RepoQuery_Repo = ''''\<rparr> [repoA, repoB])
       \<noteq> Return (None, ErrPermissionDenied)"
  by (simp add: List_def redact_def demo_defs)

text \<open>
  Claim C3, amended. \<open>List\<close> never produces a permission-denied error of its own. It
  returns the error value of the store as it is and, when the store returns a list,
  the list of the repositories for which the enforcer allows (repositories, get), in
  the store's order and redacted; a repository that the caller may not get is left out.
\<close>

theorem List_omits_denied_repositories:
  "List s ctx q d =
     (case ListRepositories (db s) d of
        ((None, err), d') \<Rightarrow> (Return (None, err), d')
      | ((Some repoList, err), d') \<Rightarrow>
          (Return (Some (repoList\<lparr>Items :=
                     map (\<lambda>r. r\<lparr>Password := '''', SSHPrivateKey := ''''\<rparr>)
                       (filter (\<lambda>r. EnforceClaims (enf s) ctx ''repositories'' ''get'' (Repo r))
                          (Items repoList))\<rparr>), err), d'))"
  by (simp add: List_def List_loop_eq split: prod.splits option.splits)



text \<open>
  Claim C6. When the directory listing and the reads of the listed files succeed,
  \<open>listHelmApps\<close> and \<open>listKsonnetApps\<close> return a list and no error, whatever the
  parser says about each document. The list holds the parsed form of every document
  that passes the inclusion filter (no parse error, a name, and for ksonnet at least
  one environment) and nothing else: a document that fails the filter is left out and
  nothing more happens.
\<close>

theorem unparsable_document_is_only_skipped:
  "(ListDir c \<lparr>ListDirRequest_Repo = repo, ListDirRequest_Revision = revision,
               ListDirRequest_Path = ''*Chart.yaml''\<rparr> = (Some hl, None)
      \<and> (\<forall>p\<in>set (FileList_Items hl).
            GetFile c \<lparr>GetFileRequest_Repo = repo, GetFileRequest_Revision = revision,
                       GetFileRequest_Path = p\<rparr> = (Some \<lparr>Data = data p\<rparr>, None))
    \<longrightarrow> (\<exists>apps. listHelmApps y repo revision c = Return (Some apps, None)
           \<and> (\<forall>p\<in>set (FileList_Items hl).
                 helm_included y p (data p) \<longrightarrow> fst (helm_parse y p (data p)) \<in> set apps)
           \<and> (\<forall>a\<in>set apps. \<exists>p\<in>set (FileList_Items hl).
                 helm_included y p (data p) \<and> a = fst (helm_parse y p (data p)))))
   \<and> (ListDir c \<lparr>ListDirRequest_Repo = repo, ListDirRequest_Revision = revision,
                 ListDirRequest_Path = ''*app.yaml''\<rparr> = (Some kl, None)
      \<and> (\<forall>p\<in>set (FileList_Items kl).
            GetFile c \<lparr>GetFileRequest_Repo = repo, GetFileRequest_Revision = revision,
                       GetFileRequest_Path = p\<rparr> = (Some \<lparr>Data = data p\<rparr>, None))
    \<longrightarrow> (\<exists>apps. listKsonnetApps y repo revision c = Return (Some apps, None)
           \<and> (\<forall>p\<in>set (FileList_Items kl).
                 ksonnet_included y p (data p)
                 \<longrightarrow> fst (ksonnet_parse y p (data p)) \<in> set apps)
           \<and> (\<forall>a\<in>set apps. \<exists>p\<in>set (FileList_Items kl).
                 ksonnet_included y p (data p) \<and> a = fst (ksonnet_parse y p (data p)))))"
proof (intro conjI impI)
  assume h: "ListDir c \<lparr>ListDirRequest_Repo = repo, ListDirRequest_Revision = revision,
               ListDirRequest_Path = ''*Chart.yaml''\<rparr> = (Some hl, None)
      \<and> (\<forall>p\<in>set (FileList_Items hl).
            GetFile c \<lparr>GetFileRequest_Repo = repo, GetFileRequest_Revision = revision,
                       GetFileRequest_Path = p\<rparr> = (Some \<lparr>Data = data p\<rparr>, None))"
  have "listHelmApps y repo revision c =
          Return (Some (map (\<lambda>p. fst (helm_parse y p (data p)))
                          (filter (\<lambda>p. helm_included y p (data p)) (FileList_Items hl))), None)"
    using h listHelmApps_loop_eq[of "FileList_Items hl" c repo revision data y "[]"]
    by (simp add: listHelmApps_def)
  then show "\<exists>apps. listHelmApps y repo revision c = Return (Some apps, None)
           \<and> (\<forall>p\<in>set (FileList_Items hl).
                 helm_included y p (data p) \<longrightarrow> fst (helm_parse y p (data p)) \<in> set apps)
           \<and> (\<forall>a\<in>set apps. \<exists>p\<in>set (FileList_Items hl).
                 helm_included y p (data p) \<and> a = fst (helm_parse y p (data p)))"
    by auto
next
  assume h: "ListDir c \<lparr>ListDirRequest_Repo = repo, ListDirRequest_Revision = revision,
                 ListDirRequest_Path = ''*app.yaml''\<rparr> = (Some kl, None)
      \<and> (\<forall>p\<in>set (FileList_Items kl).
            GetFile c \<lparr>GetFileRequest_Repo = repo, GetFileRequest_Revision = revision,
                       GetFileRequest_Path = p\<rparr> = (Some \<lparr>Data = data p\<rparr>, None))"
  have "listKsonnetApps y repo revision c =
          Return (Some (map (\<lambda>p. fst (ksonnet_parse y p (data p)))
                          (filter (\<lambda>p. ksonnet_included y p (data p)) (FileList_Items kl))),
                  None)"
    using h listKsonnetApps_loop_eq[of "FileList_Items kl" c repo revision data y "[]"]
    by (simp add: listKsonnetApps_def)
  then show "\<exists>apps. listKsonnetApps y repo revision c = Return (Some apps, None)
           \<and> (\<forall>p\<in>set (FileList_Items kl).
                 ksonnet_included y p (data p)
                 \<longrightarrow> fst (ksonnet_parse y p (data p)) \<in> set apps)
           \<and> (\<forall>a\<in>set apps. \<exists>p\<in>set (FileList_Items kl).
                 ksonnet_included y p (data p) \<and> a = fst (ksonnet_parse y p (data p)))"
    by auto
qed

text \<open>
  Three charts of which the second does not parse, and three ksonnet apps of which the
  second has no environment.
\<close>

theorem unparsable_document_is_only_skipped_witness:
  "listHelmApps toyYaml (Some repoA) ''HEAD'' demoClient
     = Return (Some [\<lparr>HelmAppSpec_Name = ''alpha'', HelmAppSpec_Path = ''a/Chart.yaml''\<rparr>,
                     \<lparr>HelmAppSpec_Name = ''gamma'', HelmAppSpec_Path = ''c/Chart.yaml''\<rparr>],
               None)
   \<and> snd (helm_parse toyYaml ''b/Chart.yaml'' (demoData ''b/Chart.yaml''))
     = Some (PlainError ''yaml: did not find expected node content'')
   \<and> listKsonnetApps toyYaml (Some repoA) ''HEAD'' demoClient
     = Return (Some [\<lparr>KsonnetAppSpec_Name = ''xi'', KsonnetAppSpec_Path = ''x/app.yaml'',
                      Environments = [(''default'', ())]\<rparr>,
                     \<lparr>KsonnetAppSpec_Name = ''zeta'', KsonnetAppSpec_Path = ''z/app.yaml'',
                      Environments = [(''prod'', ())]\<rparr>], None)
   \<and> Environments (fst (ksonnet_parse toyYaml ''y/app.yaml'' (demoData ''y/app.yaml''))) = []"
proof -
  let ?hl = "\<lparr>FileList_Items = [''a/Chart.yaml'', ''b/Chart.yaml'', ''c/Chart.yaml'']\<rparr>"
  let ?kl = "\<lparr>FileList_Items = [''x/app.yaml'', ''y/app.yaml'', ''z/app.yaml'']\<rparr>"
  note T = unparsable_document_is_only_skipped
             [where c = demoClient and repo = "Some repoA" and revision = "''HEAD''"
                and hl = ?hl and kl = ?kl and data = demoData and y = toyYaml]
  have hh: "ListDir demoClient \<lparr>ListDirRequest_Repo = Some repoA,
               ListDirRequest_Revision = ''HEAD'', ListDirRequest_Path = ''*Chart.yaml''\<rparr>
             = (Some ?hl, None)
      \<and> (\<forall>p\<in>set (FileList_Items ?hl).
            GetFile demoClient \<lparr>GetFileRequest_Repo = Some repoA,
               GetFileRequest_Revision = ''HEAD'', GetFileRequest_Path = p\<rparr>
            = (Some \<lparr>Data = demoData p\<rparr>, None))"
    by (simp add: demoClient_def demoFiles_def demoData_def)
  have hk: "ListDir demoClient \<lparr>ListDirRequest_Repo = Some repoA,
               ListDirRequest_Revision = ''HEAD'', ListDirRequest_Path = ''*app.yaml''\<rparr>
             = (Some ?kl, None)
      \<and> (\<forall>p\<in>set (FileList_Items ?kl).
            GetFile demoClient \<lparr>GetFileRequest_Repo = Some repoA,
               GetFileRequest_Revision = ''HEAD'', GetFileRequest_Path = p\<rparr>
            = (Some \<lparr>Data = demoData p\<rparr>, None))"
    by (simp add: demoClient_def demoFiles_def demoData_def)
  have ih: "helm_included toyYaml ''a/Chart.yaml'' (demoData ''a/Chart.yaml'')"
           "\<not> helm_included toyYaml ''b/Chart.yaml'' (demoData ''b/Chart.yaml'')"
           "helm_included toyYaml ''c/Chart.yaml'' (demoData ''c/Chart.yaml'')"
    by (simp_all add: helm_included_def helm_parse_def toyYaml_def demoData_def demoFiles_def)
  have ik: "ksonnet_included toyYaml ''x/app.yaml'' (demoData ''x/app.yaml'')"
           "\<not> ksonnet_included toyYaml ''y/app.yaml'' (demoData ''y/app.yaml'')"
           "ksonnet_included toyYaml ''z/app.yaml'' (demoData ''z/app.yaml'')"
    by (simp_all add: ksonnet_included_def ksonnet_parse_def toyYaml_def demoData_def
          demoFiles_def)
  obtain happs where happs:
      "listHelmApps toyYaml (Some repoA) ''HEAD'' demoClient = Return (Some happs, None)"
      "\<forall>p\<in>set (FileList_Items ?hl). helm_included toyYaml p (demoData p)
          \<longrightarrow> fst (helm_parse toyYaml p (demoData p)) \<in> set happs"
    using T[THEN conjunct1, rule_format, OF hh] by blast
  obtain kapps where kapps:
      "listKsonnetApps toyYaml (Some repoA) ''HEAD'' demoClient = Return (Some kapps, None)"
      "\<forall>p\<in>set (FileList_Items ?kl). ksonnet_included toyYaml p (demoData p)
          \<longrightarrow> fst (ksonnet_parse toyYaml p (demoData p)) \<in> set kapps"
    using T[THEN conjunct2, rule_format, OF hk] by blast
  have "fst (helm_parse toyYaml ''a/Chart.yaml'' (demoData ''a/Chart.yaml'')) \<in> set happs"
    using happs(2) ih(1) by simp
  moreover have
    "fst (ksonnet_parse toyYaml ''z/app.yaml'' (demoData ''z/app.yaml'')) \<in> set kapps"
    using kapps(2) ik(3) by simp
  ultimately show ?thesis
    by (simp add: listHelmApps_def listKsonnetApps_def helm_parse_def ksonnet_parse_def
          demoClient_def demoFiles_def demoData_def toyYaml_def)
qed

text \<open>
  Claim C7. Let \<open>Create\<close> pass its guard and let \<open>t\<close> be the result of the
  connectivity test on the normalized URL with the request's credentials. If the test
  fails with \<open>e\<close>, \<open>Create\<close> returns \<open>e\<close> and the store keeps its state. On a store that
  keeps a journal, every write that \<open>Create\<close> issues comes after a successful test and
  is a creation or an update of \<open>r\<close>, the request's repository with the connection
  status \<open>Successful\<close>.
\<close>

theorem Create_persists_only_tested_repository:
  assumes "RepoCreateRequest_Repo q = Some rq"
    and "EnforceClaims (enf s) ctx ''repositories'' ''create'' (Repo rq)"
    and "r = rq\<lparr>ConnectionState :=
                 \<lparr>Status = ConnectionStatusSuccessful, Message = '''', ModifiedAt = None\<rparr>\<rparr>"
    and "t = TestRepo g (NormalizeGitURL g (Repo rq)) (Username rq) (Password rq)
               (SSHPrivateKey rq)"
  shows "(\<forall>e. t = Some e \<longrightarrow> Create g s ctx q d = (Return (None, Some e), d))
       \<and> (\<forall>out d' log.
             Create g (recordingServer s) ctx q (d, []) = (out, d', log)
             \<longrightarrow> (\<forall>c\<in>set log. is_write c
                    \<longrightarrow> t = None
                       \<and> (c = Call_CreateRepository r \<or> c = Call_UpdateRepository r)
                       \<and> Status (ConnectionState r) = ConnectionStatusSuccessful))"
proof (intro conjI allI impI)
  fix e
  assume "t = Some e"
  then show "Create g s ctx q d = (Return (None, Some e), d)"
    using assms by (simp add: Create_def)
next
  fix out d' log
  assume run: "Create g (recordingServer s) ctx q (d, []) = (out, d', log)"
  have st: "Status (ConnectionState r) = ConnectionStatusSuccessful"
    using assms(3) by simp
  have upd: "set log' \<subseteq> set log0 \<union> {Call_UpdateRepository x}"
    if "Update (recordingServer s) ctx \<lparr>RepoUpdateRequest_Repo = Some x\<rparr> (d0, log0)
          = (out', d'', log')" for x d0 log0 out' d'' log'
    using that
    by (auto simp: Update_def recordingServer_def recording_def journal_def
          split: if_splits prod.splits)
  have sel: "db (recordingServer s) = recording (db s)" "enf (recordingServer s) = enf s"
    by (simp_all add: recordingServer_def)
  show "\<forall>c\<in>set log. is_write c
          \<longrightarrow> t = None
             \<and> (c = Call_CreateRepository r \<or> c = Call_UpdateRepository r)
             \<and> Status (ConnectionState r) = ConnectionStatusSuccessful"
  proof (cases t)
    case (Some e)
    then have "Create g (recordingServer s) ctx q (d, []) = (Return (None, Some e), (d, []))"
      using assms by (simp add: Create_def sel)
    with run show ?thesis by simp
  next
    case None
    have "set log \<subseteq> {Call_CreateRepository r, Call_GetRepository (Repo r),
                        Call_UpdateRepository r}"
      using run assms None
      unfolding Create_def Let_def
      by (auto simp: sel recording_def journal_def
            split: if_splits prod.splits option.splits dest!: upd)
    then show ?thesis
      using None st by auto
  qed
qed

text \<open>
  An unreachable repository leaves the store alone; a reachable one, upserted over a
  stored repository, is written twice, each time with the successful status.
\<close>

theorem Create_persists_only_tested_repository_witness:
  "Create gitUnreachable (srv allowAll) ''alice''
     \<lparr>RepoCreateRequest_Repo = Some repoB, Upsert = False\<rparr> [repoA]
     = (Return (None, Some (PlainError ''repository not found'')), [repoA])
   \<and> snd (snd (Create gitReachable (recordingServer (srv allowAll)) ''alice''
                 \<lparr>RepoCreateRequest_Repo = Some (repoA\<lparr>Username := ''carol''\<rparr>),
                  Upsert = True\<rparr> ([repoA], [])))
     = [Call_CreateRepository
          (repoA\<lparr>Username := ''carol'',
                  ConnectionState :=
                    \<lparr>Status = ''Successful'', Message = '''', ModifiedAt = None\<rparr>\<rparr>),
        Call_GetRepository (Repo repoA),
        Call_UpdateRepository
          (repoA\<lparr>Username := ''carol'',
                  ConnectionState :=
                    \<lparr>Status = ''Successful'', Message = '''', ModifiedAt = None\<rparr>\<rparr>)]
   \<and> Status (ConnectionState
        (repoA\<lparr>Username := ''carol'',
                ConnectionState :=
                  \<lparr>Status = ''Successful'', Message = '''', ModifiedAt = None\<rparr>\<rparr>))
     = ConnectionStatusSuccessful"
proof -
  let ?ok = "\<lparr>Status = ConnectionStatusSuccessful, Message = '''', ModifiedAt = None\<rparr>"
  let ?C = "repoA\<lparr>Username := ''carol''\<rparr>"
  let ?q = "\<lparr>RepoCreateRequest_Repo = Some ?C, Upsert = True\<rparr>"
  have allow: "EnforceClaims (enf (srv allowAll)) ''alice'' res act obj" for res act obj
    by (simp add: srv_def allowAll_def)
  have failed: "Create gitUnreachable (srv allowAll) ''alice''
          \<lparr>RepoCreateRequest_Repo = Some repoB, Upsert = False\<rparr> [repoA]
        = (Return (None, Some (PlainError ''repository not found'')), [repoA])"
    using Create_persists_only_tested_repository
        [where q = "\<lparr>RepoCreateRequest_Repo = Some repoB, Upsert = False\<rparr>" and rq = repoB
           and s = "srv allowAll" and ctx = "''alice''" and g = gitUnreachable
           and r = "repoB\<lparr>ConnectionState := ?ok\<rparr>"
           and t = "Some (PlainError ''repository not found'')" and d = "[repoA]"]
      allow
    by (simp add: gitUnreachable_def)
  have run: "Create gitReachable (recordingServer (srv allowAll)) ''alice'' ?q ([repoA], [])
        = (Return (Some (?C\<lparr>ConnectionState := ?ok, Password := '''', SSHPrivateKey := ''''\<rparr>),
                   None),
           [?C\<lparr>ConnectionState := ?ok\<rparr>],
           [Call_CreateRepository (?C\<lparr>ConnectionState := ?ok\<rparr>),
            Call_GetRepository (Repo repoA),
            Call_UpdateRepository (?C\<lparr>ConnectionState := ?ok\<rparr>)])"
    by (simp add: Create_def Update_def Let_def redact_def recordingServer_def recording_def
          journal_def ConnectionStatusSuccessful_def demo_defs)
  have "\<forall>c\<in>set [Call_CreateRepository (?C\<lparr>ConnectionState := ?ok\<rparr>),
                   Call_GetRepository (Repo repoA),
                   Call_UpdateRepository (?C\<lparr>ConnectionState := ?ok\<rparr>)].
          is_write c \<longrightarrow>
            None = (None :: error option)
            \<and> (c = Call_CreateRepository (?C\<lparr>ConnectionState := ?ok\<rparr>)
               \<or> c = Call_UpdateRepository (?C\<lparr>ConnectionState := ?ok\<rparr>))
            \<and> Status (ConnectionState (?C\<lparr>ConnectionState := ?ok\<rparr>))
                = ConnectionStatusSuccessful"
    using Create_persists_only_tested_repository
        [where q = ?q and rq = ?C and s = "srv allowAll" and ctx = "''alice''"
           and g = gitReachable and r = "?C\<lparr>ConnectionState := ?ok\<rparr>"
           and t = None and d = "[repoA]"]
      allow run
    by (simp add: gitReachable_def)
  then have "Status (ConnectionState (?C\<lparr>ConnectionState := ?ok\<rparr>))
               = ConnectionStatusSuccessful"
    by simp
  then show ?thesis
    using failed run by (simp add: ConnectionStatusSuccessful_def)
qed

text \<open>
  Claim C8. When \<open>ListApps\<close> passes its guard, the store returns the repository, the
  client is obtained and the listings and reads at the revision \<open>revision\<close> succeed,
  where \<open>revision\<close> is \<open>HEAD\<close> for an empty revision in the query and the query's
  revision otherwise, the response holds the parsed documents that pass the inclusion
  filter, in the order of the paths of the two directory listings.
\<close>

theorem ListApps_keeps_listing_order:
  assumes "EnforceClaims (enf s) ctx ''repositories/apps'' ''get'' (RepoAppsQuery_Repo q)"
    and "GetRepository (db s) (RepoAppsQuery_Repo q) d = ((repo, None), d')"
    and "NewRepositoryClient (repoClientset s) = (Some c, None)"
    and "revision = (if RepoAppsQuery_Revision q = '''' then ''HEAD''
                else RepoAppsQuery_Revision q)"
    and "ListDir c \<lparr>ListDirRequest_Repo = repo, ListDirRequest_Revision = revision,
                    ListDirRequest_Path = ''*app.yaml''\<rparr> = (Some kl, None)"
    and "ListDir c \<lparr>ListDirRequest_Repo = repo, ListDirRequest_Revision = revision,
                    ListDirRequest_Path = ''*Chart.yaml''\<rparr> = (Some hl, None)"
    and "\<forall>p\<in>set (FileList_Items kl) \<union> set (FileList_Items hl).
           GetFile c \<lparr>GetFileRequest_Repo = repo, GetFileRequest_Revision = revision,
                      GetFileRequest_Path = p\<rparr> = (Some \<lparr>Data = data p\<rparr>, None)"
  shows "ListApps y s ctx q d =
           (Return (Some
              \<lparr>KsonnetApps = Some (map (\<lambda>p. fst (ksonnet_parse y p (data p)))
                                     (filter (\<lambda>p. ksonnet_included y p (data p))
                                        (FileList_Items kl))),
               HelmApps = Some (map (\<lambda>p. fst (helm_parse y p (data p)))
                                  (filter (\<lambda>p. helm_included y p (data p))
                                     (FileList_Items hl)))\<rparr>, None), d')"
proof -
  have k: "listKsonnetApps y repo revision c =
          Return (Some (map (\<lambda>p. fst (ksonnet_parse y p (data p)))
                          (filter (\<lambda>p. ksonnet_included y p (data p)) (FileList_Items kl))),
                  None)"
    using assms(5,7) listKsonnetApps_loop_eq[of "FileList_Items kl" c repo revision data y "[]"]
    by (simp add: listKsonnetApps_def)
  have h: "listHelmApps y repo revision c =
          Return (Some (map (\<lambda>p. fst (helm_parse y p (data p)))
                          (filter (\<lambda>p. helm_included y p (data p)) (FileList_Items hl))), None)"
    using assms(6,7) listHelmApps_loop_eq[of "FileList_Items hl" c repo revision data y "[]"]
    by (simp add: listHelmApps_def)
  show ?thesis
    using assms(1,2,3) k h unfolding assms(4)
    by (simp add: ListApps_def Let_def)
qed

text \<open>
  A query with an empty revision against a repository server that only knows \<open>HEAD\<close>.
\<close>

theorem ListApps_keeps_listing_order_witness:
  "ListApps toyYaml (srv allowAll) ''alice''
     \<lparr>RepoAppsQuery_Repo = Repo repoA, RepoAppsQuery_Revision = ''''\<rparr> [repoA]
   = (Return (Some
        \<lparr>KsonnetApps = Some
           [\<lparr>KsonnetAppSpec_Name = ''xi'', KsonnetAppSpec_Path = ''x/app.yaml'',
             Environments = [(''default'', ())]\<rparr>,
            \<lparr>KsonnetAppSpec_Name = ''zeta'', KsonnetAppSpec_Path = ''z/app.yaml'',
             Environments = [(''prod'', ())]\<rparr>],
         HelmApps = Some
           [\<lparr>HelmAppSpec_Name = ''alpha'', HelmAppSpec_Path = ''a/Chart.yaml''\<rparr>,
            \<lparr>HelmAppSpec_Name = ''gamma'', HelmAppSpec_Path = ''c/Chart.yaml''\<rparr>]\<rparr>, None),
      [repoA])"
proof -
  let ?hl = "\<lparr>FileList_Items = [''a/Chart.yaml'', ''b/Chart.yaml'', ''c/Chart.yaml'']\<rparr>"
  let ?kl = "\<lparr>FileList_Items = [''x/app.yaml'', ''y/app.yaml'', ''z/app.yaml'']\<rparr>"
  have "ListApps toyYaml (srv allowAll) ''alice''
          \<lparr>RepoAppsQuery_Repo = Repo repoA, RepoAppsQuery_Revision = ''''\<rparr> [repoA]
        = (Return (Some
             \<lparr>KsonnetApps = Some (map (\<lambda>p. fst (ksonnet_parse toyYaml p (demoData p)))
                                    (filter (\<lambda>p. ksonnet_included toyYaml p (demoData p))
                                       (FileList_Items ?kl))),
              HelmApps = Some (map (\<lambda>p. fst (helm_parse toyYaml p (demoData p)))
                                 (filter (\<lambda>p. helm_included toyYaml p (demoData p))
                                    (FileList_Items ?hl)))\<rparr>, None), [repoA])"
    by (rule ListApps_keeps_listing_order
          [where repo = "Some repoA" and c = demoClient and revision = "''HEAD''"])
       (simp_all add: srv_def memDB_def allowAll_def demoClientset_def demoClient_def
          demoFiles_def demoData_def repoA_def)
  then show ?thesis
    by (simp add: helm_included_def helm_parse_def ksonnet_included_def ksonnet_parse_def
          toyYaml_def demoData_def demoFiles_def)
qed

text \<open>
  Claim C9. When the store answers the creation with an error of code
  \<open>AlreadyExists\<close> and the read of the existing repository then fails with \<open>getErr\<close>,
  \<open>Create\<close> returns a status error of code \<open>Internal\<close> whose message ends with the text
  of \<open>getErr\<close>.
\<close>

theorem Create_get_failure_is_internal:
  assumes "RepoCreateRequest_Repo q = Some rq"
    and "EnforceClaims (enf s) ctx ''repositories'' ''create'' (Repo rq)"
    and "TestRepo g (NormalizeGitURL g (Repo rq)) (Username rq) (Password rq)
           (SSHPrivateKey rq) = None"
    and "r = rq\<lparr>ConnectionState :=
                 \<lparr>Status = ConnectionStatusSuccessful, Message = '''', ModifiedAt = None\<rparr>\<rparr>"
    and "CreateRepository (db s) r d = ((repo, err), d')"
    and "status_Convert_Code err = AlreadyExists"
    and "GetRepository (db s) (Repo r) d' = ((existing, Some getErr), d'')"
  shows "Create g s ctx q d =
           (Return (None, Some (StatusError Internal
              (''unable to check existing repository details: '' @ Error getErr))), d'')"
  using assms
  by (simp add: Create_def Let_def status_Errorf_def split: option.splits)

text \<open>A store that holds the repository and refuses every read.\<close>

theorem Create_get_failure_is_internal_witness:
  "Create gitReachable srvUnreadable ''alice''
     \<lparr>RepoCreateRequest_Repo = Some repoA, Upsert = False\<rparr> [repoA]
   = (Return (None, Some (StatusError Internal
        ''unable to check existing repository details: connection refused'')), [repoA])"
proof -
  let ?ok = "\<lparr>Status = ConnectionStatusSuccessful, Message = '''', ModifiedAt = None\<rparr>"
  have "Create gitReachable srvUnreadable ''alice''
          \<lparr>RepoCreateRequest_Repo = Some repoA, Upsert = False\<rparr> [repoA]
        = (Return (None, Some (StatusError Internal
             (''unable to check existing repository details: ''
              @ Error (PlainError ''connection refused'')))), [repoA])"
    by (rule Create_get_failure_is_internal
          [where rq = repoA and r = "repoA\<lparr>ConnectionState := ?ok\<rparr>" and repo = None
             and err = "Some (StatusError AlreadyExists ''repository already exists'')"
             and d' = "[repoA]" and existing = None])
       (simp_all add: demo_defs)
  then show ?thesis by simp
qed

end
